theory Spec2Isabelle
  imports Complex_Main
begin

section \<open>Python values and the primitives the pipeline uses\<close>

text \<open>
  The recommendation pipeline of \<^verbatim>\<open>train_model.py\<close> and \<^verbatim>\<open>app.py\<close> works on parsed
  JSON documents. A document is a value of \<open>json\<close>; Python's \<^verbatim>\<open>None\<close> is \<open>JNull\<close>. An
  object is an association list read with \<open>map_of\<close>.
\<close>

datatype json =
    JNull
  | JBool bool
  | JNum rat
  | JStr string
  | JList "json list"
  | JObj "(string \<times> json) list"

text \<open>
  Exceptions. \<open>ClientError\<close> stands for \<^verbatim>\<open>aiohttp.ClientError\<close> and its subclasses, which
  the asynchronous functions catch apart from every other \<^verbatim>\<open>Exception\<close>.
\<close>

datatype exn =
    ClientError string
  | KeyError
  | TypeError
  | AttributeError
  | IndexError
  | OtherError string

text \<open>
  The text of an error entry: a literal, or an f-string that ends in the caught exception.
\<close>

datatype message = Msg string | MsgExn string exn

text \<open>An f-string \<^verbatim>\<open>f"{prefix}{value}"\<close>: the literal prefix and the formatted value.\<close>

datatype fstring = Fmt string json

text \<open>Truth value of a document, as \<^verbatim>\<open>not x\<close> and \<^verbatim>\<open>if x\<close> read it.\<close>

fun truthy :: "json \<Rightarrow> bool" where
  "truthy JNull = False"
| "truthy (JBool b) = b"
| "truthy (JNum n) = (n \<noteq> 0)"
| "truthy (JStr s) = (s \<noteq> [])"
| "truthy (JList xs) = (xs \<noteq> [])"
| "truthy (JObj kvs) = (kvs \<noteq> [])"

text \<open>\<^verbatim>\<open>x.get(key, default)\<close>: only a dict has the method.\<close>

fun py_get :: "json \<Rightarrow> string \<Rightarrow> json \<Rightarrow> exn + json" where
  "py_get (JObj kvs) k d = Inr (case map_of kvs k of None \<Rightarrow> d | Some v \<Rightarrow> v)"
| "py_get _ k d = Inl AttributeError"

text \<open>\<^verbatim>\<open>x[key]\<close> with a string key.\<close>

fun py_item :: "json \<Rightarrow> string \<Rightarrow> exn + json" where
  "py_item (JObj kvs) k = (case map_of kvs k of None \<Rightarrow> Inl KeyError | Some v \<Rightarrow> Inr v)"
| "py_item _ k = Inl TypeError"

text \<open>\<^verbatim>\<open>x[0]\<close>.\<close>

fun py_item0 :: "json \<Rightarrow> exn + json" where
  "py_item0 (JList []) = Inl IndexError"
| "py_item0 (JList (x # xs)) = Inr x"
| "py_item0 (JStr []) = Inl IndexError"
| "py_item0 (JStr (c # cs)) = Inr (JStr [c])"
| "py_item0 (JObj kvs) = Inl KeyError"
| "py_item0 _ = Inl TypeError"

text \<open>\<^verbatim>\<open>xs[:k]\<close> on a Python sequence: a negative bound counts from the end.\<close>

definition slice_to :: "int \<Rightarrow> 'a list \<Rightarrow> 'a list" where
  "slice_to k xs = (if 0 \<le> k then take (nat k) xs else take (length xs - nat (- k)) xs)"

fun py_slice_to :: "int \<Rightarrow> json \<Rightarrow> exn + json" where
  "py_slice_to k (JList xs) = Inr (JList (slice_to k xs))"
| "py_slice_to k (JStr s) = Inr (JStr (slice_to k s))"
| "py_slice_to k _ = Inl TypeError"

text \<open>The elements a \<^verbatim>\<open>for\<close> loop or a comprehension visits.\<close>

fun py_iter :: "json \<Rightarrow> exn + json list" where
  "py_iter (JList xs) = Inr xs"
| "py_iter (JStr s) = Inr (map (\<lambda>c. JStr [c]) s)"
| "py_iter (JObj kvs) = Inr (map (\<lambda>kv. JStr (fst kv)) kvs)"
| "py_iter _ = Inl TypeError"

text \<open>A comprehension \<^verbatim>\<open>[f(x) for x in xs]\<close>: the first exception ends it.\<close>

fun comprehension :: "('a \<Rightarrow> exn + 'b) \<Rightarrow> 'a list \<Rightarrow> exn + 'b list" where
  "comprehension f [] = Inr []"
| "comprehension f (x # xs) =
     (case f x of
        Inl e \<Rightarrow> Inl e
      | Inr y \<Rightarrow> (case comprehension f xs of Inl e \<Rightarrow> Inl e | Inr ys \<Rightarrow> Inr (y # ys)))"

text \<open>\<^verbatim>\<open>", ".join(names)\<close>: every item has to be a string.\<close>

fun join_strings :: "string list \<Rightarrow> string" where
  "join_strings [] = []"
| "join_strings [s] = s"
| "join_strings (s # t # ss) = s @ '', '' @ join_strings (t # ss)"

fun as_str :: "json \<Rightarrow> exn + string" where
  "as_str (JStr s) = Inr s"
| "as_str _ = Inl TypeError"

definition py_join :: "json list \<Rightarrow> exn + string" where
  "py_join xs = (case comprehension as_str xs of Inl e \<Rightarrow> Inl e | Inr ss \<Rightarrow> Inr (join_strings ss))"

text \<open>
  \<^verbatim>\<open>s.lower().strip()\<close> on ASCII text: capital letters are lowered, white space is removed at
  both ends.
\<close>

definition lower_char :: "char \<Rightarrow> char" where
  "lower_char c =
     (let n = (of_char c :: nat) in if 65 \<le> n \<and> n \<le> 90 then char_of (n + 32) else c)"

definition is_space :: "char \<Rightarrow> bool" where
  "is_space c = (let n = (of_char c :: nat) in (9 \<le> n \<and> n \<le> 13) \<or> (28 \<le> n \<and> n \<le> 32))"

definition lower_strip :: "string \<Rightarrow> string" where
  "lower_strip s = rev (dropWhile is_space (rev (dropWhile is_space (map lower_char s))))"

text \<open>
  Three outcomes of a stretch of code inside a \<^verbatim>\<open>try\<close> block: an exception is raised, the
  function returns early, or control goes on with a value.
\<close>

datatype ('r, 'a) step = Raise exn | Return 'r | Next 'a

section \<open>The remote catalog, the model artifacts and the configuration\<close>

text \<open>
  A request names the endpoint and the values interpolated into its URL: the API key and the
  query or the catalog identifier.
\<close>

datatype request =
    Search_Movie string json
  | Similar string json
  | Movie string json
  | Credits string json
  | Watch_Providers string json
  | Recommendations string json

text \<open>
  A GET either raises (connection error, timeout) or gives a status code and a body whose
  parsing as JSON may raise as well.
\<close>

datatype response = Raises exn | Resp int "exn + json"

text \<open>
  The surroundings of one request: the process environment, the three artifacts loaded at
  start-up (\<open>None\<close> when loading failed), whether \<^verbatim>\<open>app.py\<close> could import
  \<^verbatim>\<open>train_model\<close>, the remote catalog as a function from request to response, and the time
  each concurrent enrichment task takes. \<open>'v\<close> is the type of feature vectors.
  \<^verbatim>\<open>kneighbors\<close> gives the row of neighbour indices or raises, and
  \<^verbatim>\<open>vectorizer.transform\<close> gives the vector of a query or raises (the loaded object may be
  unfitted, or no vectorizer at all). Within one run the catalog answers equal requests alike.
\<close>

record 'v world =
  environ :: "string \<Rightarrow> string option"
  knn_model :: "('v \<Rightarrow> int \<Rightarrow> exn + nat list) option"
  vectorizer :: "(string \<Rightarrow> exn + 'v) option"
  movies_df :: "json list option"
  train_model_imported :: bool
  http_get :: "request \<Rightarrow> response"
  latency :: "nat \<Rightarrow> nat"

text \<open>\<^verbatim>\<open>os.environ.get("TMDB_API_KEY", "3075...")\<close> of \<^verbatim>\<open>train_model.py\<close>.\<close>

definition TMDB_API_KEY :: "'v world \<Rightarrow> string" where
  "TMDB_API_KEY w =
     (case environ w ''TMDB_API_KEY'' of
        None \<Rightarrow> ''3075ab4eebb27e51a67f7869d6b7984a''
      | Some v \<Rightarrow> v)"

section \<open>Candidate resolution\<close>

text \<open>
  The dictionary both resolvers return: \<^verbatim>\<open>{"error": ...}\<close> or
  \<^verbatim>\<open>{"recommended_movies": [...], "source": ...}\<close>.
\<close>

datatype rec_result = Rec_Error message | Rec_Ok "json list" string

fun has_error :: "rec_result \<Rightarrow> bool" where
  "has_error (Rec_Error m) = True"
| "has_error (Rec_Ok ts s) = False"

text \<open>\<^verbatim>\<open>rec_result.get("recommended_movies", [])\<close>.\<close>

fun recommended_movies :: "rec_result \<Rightarrow> json list" where
  "recommended_movies (Rec_Error m) = []"
| "recommended_movies (Rec_Ok ts s) = ts"

subsection \<open>\<^verbatim>\<open>recommend_tmdb\<close>\<close>

text \<open>
  Every function that contacts the catalog starts with the same search: a status other than
  200 ends the function with one entry, a falsy \<^verbatim>\<open>data.get("results")\<close> with another,
  and otherwise \<^verbatim>\<open>data["results"][0]\<close> is the top match. The two entries are the
  parameters.
\<close>

definition first_result :: "response \<Rightarrow> 'r \<Rightarrow> 'r \<Rightarrow> ('r, json) step" where
  "first_result resp on_status on_empty =
     (case resp of
        Raises e \<Rightarrow> Raise e
      | Resp status body \<Rightarrow>
          if status \<noteq> 200 then Return on_status
          else (case body of
                  Inl e \<Rightarrow> Raise e
                | Inr data \<Rightarrow>
                    (case py_get data ''results'' JNull of
                       Inl e \<Rightarrow> Raise e
                     | Inr results \<Rightarrow>
                         if \<not> truthy results then Return on_empty
                         else (case py_item0 results of
                                 Inl e \<Rightarrow> Raise e
                               | Inr top_match \<Rightarrow> Next top_match))))"

text \<open>Lines 43 to 49: the search call, up to the identifier of the top match.\<close>

definition tmdb_search :: "'v world \<Rightarrow> string \<Rightarrow> (rec_result, json) step" where
  "tmdb_search w movie_name_proc =
     (case first_result (http_get w (Search_Movie (TMDB_API_KEY w) (JStr movie_name_proc)))
             (Rec_Error (Msg ''TMDB API search failed.''))
             (Rec_Error (Msg ''Movie not found in TMDB.'')) of
        Raise e \<Rightarrow> Raise e
      | Return r \<Rightarrow> Return r
      | Next top_match \<Rightarrow>
          (case py_item top_match ''id'' of
             Inl e \<Rightarrow> Raise e
           | Inr movie_id \<Rightarrow> Next movie_id))"

text \<open>Lines 50 to 58: the similar-titles call and the truncation to \<open>k\<close>.\<close>

definition tmdb_similar :: "'v world \<Rightarrow> json \<Rightarrow> int \<Rightarrow> (rec_result, rec_result) step" where
  "tmdb_similar w movie_id k =
     (case http_get w (Similar (TMDB_API_KEY w) movie_id) of
        Raises e \<Rightarrow> Raise e
      | Resp status body \<Rightarrow>
          if status \<noteq> 200
          then Return (Rec_Error (Msg ''TMDB API similar movies fetch failed.''))
          else (case body of
                  Inl e \<Rightarrow> Raise e
                | Inr similar_data \<Rightarrow>
                    (case py_get similar_data ''results'' JNull of
                       Inl e \<Rightarrow> Raise e
                     | Inr results \<Rightarrow>
                         if \<not> truthy results
                         then Return (Rec_Error (Msg ''No similar movies found on TMDB.''))
                         else (case py_iter results of
                                 Inl e \<Rightarrow> Raise e
                               | Inr movies \<Rightarrow>
                                   (case comprehension (\<lambda>movie. py_item movie ''title'') movies of
                                      Inl e \<Rightarrow> Raise e
                                    | Inr titles \<Rightarrow>
                                        Next (Rec_Ok (slice_to k titles) ''TMDB fallback''))))))"

text \<open>
  The function returns its dictionary and the requests it issued, in order. An exception
  anywhere in the \<^verbatim>\<open>try\<close> block becomes an error entry.
\<close>

definition recommend_tmdb :: "'v world \<Rightarrow> string \<Rightarrow> int \<Rightarrow> rec_result \<times> request list" where
  "recommend_tmdb w movie_name k =
     (let movie_name_proc = lower_strip movie_name in
      if TMDB_API_KEY w = [] then (Rec_Error (Msg ''TMDB API key is missing.''), [])
      else
        let search_url = Search_Movie (TMDB_API_KEY w) (JStr movie_name_proc) in
        (case tmdb_search w movie_name_proc of
           Raise e \<Rightarrow> (Rec_Error (MsgExn ''Error during TMDB fallback: '' e), [search_url])
         | Return r \<Rightarrow> (r, [search_url])
         | Next movie_id \<Rightarrow>
             let similar_url = Similar (TMDB_API_KEY w) movie_id in
             (case tmdb_similar w movie_id k of
                Raise e \<Rightarrow>
                  (Rec_Error (MsgExn ''Error during TMDB fallback: '' e), [search_url, similar_url])
              | Return r \<Rightarrow> (r, [search_url, similar_url])
              | Next r \<Rightarrow> (r, [search_url, similar_url]))))"

subsection \<open>\<^verbatim>\<open>recommend_ml\<close>\<close>

text \<open>
  \<^verbatim>\<open>indices.squeeze().tolist()[1:]\<close>: \<open>indices\<close> has one row. A row of one entry squeezes to
  a scalar, which cannot be sliced.
\<close>

definition squeeze_tail :: "nat list \<Rightarrow> exn + nat list" where
  "squeeze_tail row = (if length row = 1 then Inl TypeError else Inr (drop 1 row))"

text \<open>\<^verbatim>\<open>movies_df.iloc[rec_indices]['title'].tolist()\<close>: a position out of range raises.\<close>

definition iloc_title :: "json list \<Rightarrow> nat list \<Rightarrow> exn + json list" where
  "iloc_title df rec_indices =
     (if list_all (\<lambda>i. i < length df) rec_indices then Inr (map (\<lambda>i. df ! i) rec_indices)
      else Inl IndexError)"

text \<open>
  Lines 75 to 82, the \<^verbatim>\<open>try\<close> block: every exception in it becomes an error entry.
\<close>

definition ml_try ::
  "('v \<Rightarrow> int \<Rightarrow> exn + nat list) \<Rightarrow> json list \<Rightarrow> 'v \<Rightarrow> int \<Rightarrow> rec_result" where
  "ml_try kneighbors df input_vector k =
     (case kneighbors input_vector (k + 1) of
        Inl e \<Rightarrow> Rec_Error (MsgExn ''ML recommendation failed: '' e)
      | Inr indices \<Rightarrow>
          (case squeeze_tail indices of
             Inl e \<Rightarrow> Rec_Error (MsgExn ''ML recommendation failed: '' e)
           | Inr rec_indices \<Rightarrow>
               (case iloc_title df rec_indices of
                  Inl e \<Rightarrow> Rec_Error (MsgExn ''ML recommendation failed: '' e)
                | Inr recommended_titles \<Rightarrow> Rec_Ok recommended_titles ''ML model'')))"

text \<open>
  The function returns a dictionary (\<open>Inr\<close>) or is left by an exception (\<open>Inl\<close>): line 73,
  \<^verbatim>\<open>vectorizer.transform([movie_name_proc])\<close>, stands before the \<^verbatim>\<open>try\<close>, so what it raises
  is not caught here.
\<close>

definition recommend_ml :: "'v world \<Rightarrow> string \<Rightarrow> int \<Rightarrow> exn + rec_result" where
  "recommend_ml w movie_name k =
     (case (knn_model w, vectorizer w, movies_df w) of
        (Some kneighbors, Some transform, Some df) \<Rightarrow>
          let movie_name_proc = lower_strip movie_name in
          (case transform movie_name_proc of
             Inl e \<Rightarrow> Inl e
           | Inr input_vector \<Rightarrow> Inr (ml_try kneighbors df input_vector k))
      | _ \<Rightarrow> Inr (Rec_Error (Msg ''Pre-trained ML model or movies mapping is not available.'')))"

section \<open>Enrichment\<close>

subsection \<open>\<^verbatim>\<open>get_movie_full_details\<close>\<close>

record movie_detail =
  title :: json
  overview :: json
  rating :: json
  release_date :: json
  cast :: string
  crew :: string
  poster_url :: "fstring option"

text \<open>The dictionary the function returns: an error entry or the seven fields.\<close>

datatype details = Details_Error message | Details_Ok movie_detail

text \<open>Lines 89 to 99: the search call; it yields the identifier and the poster address.\<close>

definition details_search ::
  "'v world \<Rightarrow> json \<Rightarrow> (details, json \<times> fstring option) step" where
  "details_search w movie_name =
     (case first_result (http_get w (Search_Movie (TMDB_API_KEY w) movie_name))
             (Details_Error (Msg ''Failed to fetch movie info from TMDB.''))
             (Details_Error (Msg ''Movie not found.'')) of
        Raise e \<Rightarrow> Raise e
      | Return r \<Rightarrow> Return r
      | Next movie_data \<Rightarrow>
          (case py_item movie_data ''id'' of
             Inl e \<Rightarrow> Raise e
           | Inr movie_id \<Rightarrow>
               (case py_get movie_data ''poster_path'' JNull of
                  Inl e \<Rightarrow> Raise e
                | Inr poster_path \<Rightarrow>
                    Next (movie_id,
                          if truthy poster_path
                          then Some (Fmt ''https://image.tmdb.org/t/p/w500'' poster_path)
                          else None))))"

text \<open>Lines 101 to 105: the details call.\<close>

definition details_fetch :: "'v world \<Rightarrow> json \<Rightarrow> (details, json) step" where
  "details_fetch w movie_id =
     (case http_get w (Movie (TMDB_API_KEY w) movie_id) of
        Raises e \<Rightarrow> Raise e
      | Resp status body \<Rightarrow>
          if status \<noteq> 200
          then Return (Details_Error (Msg ''Failed to fetch additional movie details.''))
          else (case body of Inl e \<Rightarrow> Raise e | Inr movie_details \<Rightarrow> Next movie_details))"

text \<open>
  Line 113, \<^verbatim>\<open>[member["name"] for member in credits.get("cast", [])[:3]]\<close>, and line 114,
  \<^verbatim>\<open>[member["name"] for member in credits.get("crew", []) if member.get("job") == "Director"]\<close>.
\<close>

definition cast_names :: "json \<Rightarrow> exn + json list" where
  "cast_names credits =
     (case py_get credits ''cast'' (JList []) of
        Inl e \<Rightarrow> Inl e
      | Inr members \<Rightarrow>
          (case py_slice_to 3 members of
             Inl e \<Rightarrow> Inl e
           | Inr first3 \<Rightarrow>
               (case py_iter first3 of
                  Inl e \<Rightarrow> Inl e
                | Inr ms \<Rightarrow> comprehension (\<lambda>member. py_item member ''name'') ms)))"

fun director_names :: "json list \<Rightarrow> exn + json list" where
  "director_names [] = Inr []"
| "director_names (member # ms) =
     (case py_get member ''job'' JNull of
        Inl e \<Rightarrow> Inl e
      | Inr job \<Rightarrow>
          if job = JStr ''Director''
          then (case py_item member ''name'' of
                  Inl e \<Rightarrow> Inl e
                | Inr n \<Rightarrow> (case director_names ms of Inl e \<Rightarrow> Inl e | Inr ns \<Rightarrow> Inr (n # ns)))
          else director_names ms)"

definition crew_names :: "json \<Rightarrow> exn + json list" where
  "crew_names credits =
     (case py_get credits ''crew'' (JList []) of
        Inl e \<Rightarrow> Inl e
      | Inr members \<Rightarrow>
          (case py_iter members of Inl e \<Rightarrow> Inl e | Inr ms \<Rightarrow> director_names ms))"

text \<open>Lines 107 to 114: the credits call. A status other than 200 gives two empty lists.\<close>

definition credits_fetch :: "'v world \<Rightarrow> json \<Rightarrow> (details, json list \<times> json list) step" where
  "credits_fetch w movie_id =
     (case http_get w (Credits (TMDB_API_KEY w) movie_id) of
        Raises e \<Rightarrow> Raise e
      | Resp status body \<Rightarrow>
          if status \<noteq> 200 then Next ([], [])
          else (case body of
                  Inl e \<Rightarrow> Raise e
                | Inr credits \<Rightarrow>
                    (case cast_names credits of
                       Inl e \<Rightarrow> Raise e
                     | Inr cast_list \<Rightarrow>
                         (case crew_names credits of
                            Inl e \<Rightarrow> Raise e
                          | Inr crew_list \<Rightarrow> Next (cast_list, crew_list)))))"

text \<open>Lines 116 to 124: the returned dictionary.\<close>

definition details_dict ::
  "json \<Rightarrow> json list \<Rightarrow> json list \<Rightarrow> fstring option \<Rightarrow> (details, details) step" where
  "details_dict movie_details cast_list crew_list poster =
     (case py_get movie_details ''title'' JNull of
        Inl e \<Rightarrow> Raise e
      | Inr t \<Rightarrow>
     (case py_get movie_details ''overview'' JNull of
        Inl e \<Rightarrow> Raise e
      | Inr ov \<Rightarrow>
     (case py_get movie_details ''vote_average'' JNull of
        Inl e \<Rightarrow> Raise e
      | Inr va \<Rightarrow>
     (case py_get movie_details ''release_date'' JNull of
        Inl e \<Rightarrow> Raise e
      | Inr rd \<Rightarrow>
     (case py_join cast_list of
        Inl e \<Rightarrow> Raise e
      | Inr cast_s \<Rightarrow>
     (case py_join crew_list of
        Inl e \<Rightarrow> Raise e
      | Inr crew_s \<Rightarrow>
          Next (Details_Ok \<lparr>title = t, overview = ov, rating = va, release_date = rd,
                            cast = cast_s, crew = crew_s, poster_url = poster\<rparr>)))))))"

text \<open>Lines 125 to 128: the two handlers.\<close>

fun details_except :: "exn \<Rightarrow> details" where
  "details_except (ClientError s) = Details_Error (MsgExn ''Network error: '' (ClientError s))"
| "details_except e = Details_Error (MsgExn ''Unexpected error: '' e)"

text \<open>The function returns its dictionary and the requests it issued, in order.\<close>

definition get_movie_full_details :: "'v world \<Rightarrow> json \<Rightarrow> details \<times> request list" where
  "get_movie_full_details w movie_name =
     (let search_url = Search_Movie (TMDB_API_KEY w) movie_name in
      case details_search w movie_name of
        Raise e \<Rightarrow> (details_except e, [search_url])
      | Return r \<Rightarrow> (r, [search_url])
      | Next (movie_id, poster) \<Rightarrow>
          let details_url = Movie (TMDB_API_KEY w) movie_id in
          (case details_fetch w movie_id of
             Raise e \<Rightarrow> (details_except e, [search_url, details_url])
           | Return r \<Rightarrow> (r, [search_url, details_url])
           | Next movie_details \<Rightarrow>
               let credits_url = Credits (TMDB_API_KEY w) movie_id;
                   calls = [search_url, details_url, credits_url]
               in (case credits_fetch w movie_id of
                     Raise e \<Rightarrow> (details_except e, calls)
                   | Return r \<Rightarrow> (r, calls)
                   | Next (cast_list, crew_list) \<Rightarrow>
                       (case details_dict movie_details cast_list crew_list poster of
                          Raise e \<Rightarrow> (details_except e, calls)
                        | Return r \<Rightarrow> (r, calls)
                        | Next r \<Rightarrow> (r, calls)))))"

subsection \<open>\<^verbatim>\<open>get_ott_links\<close> of \<^verbatim>\<open>train_model.py\<close>\<close>

text \<open>The dictionary: an error entry, or the free and the paid provider names.\<close>

datatype ott_links = Ott_Error message | Ott_Ok "json list" "json list"

text \<open>Lines 135 to 142: the search call.\<close>

definition ott_search :: "'v world \<Rightarrow> json \<Rightarrow> (ott_links, json) step" where
  "ott_search w movie_name =
     (case first_result (http_get w (Search_Movie (TMDB_API_KEY w) movie_name))
             (Ott_Error (Msg ''Failed to fetch movie info from TMDB.''))
             (Ott_Error (Msg ''No streaming info available.'')) of
        Raise e \<Rightarrow> Raise e
      | Return r \<Rightarrow> Return r
      | Next top_match \<Rightarrow>
          (case py_item top_match ''id'' of
             Inl e \<Rightarrow> Raise e
           | Inr movie_id \<Rightarrow> Next movie_id))"

text \<open>\<^verbatim>\<open>[p.get("provider_name") for p in providers]\<close>.\<close>

definition provider_names :: "json \<Rightarrow> exn + json list" where
  "provider_names providers =
     (case py_iter providers of
        Inl e \<Rightarrow> Inl e
      | Inr ps \<Rightarrow> comprehension (\<lambda>p. py_get p ''provider_name'' JNull) ps)"

text \<open>Lines 148 to 155: the providers of region \<^verbatim>\<open>IN\<close>, free ones first.\<close>

definition ott_dict :: "json \<Rightarrow> exn + ott_links" where
  "ott_dict providers_data =
     (case py_get providers_data ''results'' (JObj []) of
        Inl e \<Rightarrow> Inl e
      | Inr results \<Rightarrow>
     (case py_get results ''IN'' (JObj []) of
        Inl e \<Rightarrow> Inl e
      | Inr in_country \<Rightarrow>
     (case py_get in_country ''flatrate'' (JList []) of
        Inl e \<Rightarrow> Inl e
      | Inr providers \<Rightarrow>
     (case py_get in_country ''free'' (JList []) of
        Inl e \<Rightarrow> Inl e
      | Inr free_providers \<Rightarrow>
     (case provider_names free_providers of
        Inl e \<Rightarrow> Inl e
      | Inr free \<Rightarrow>
     (case provider_names providers of
        Inl e \<Rightarrow> Inl e
      | Inr paid \<Rightarrow> Inr (Ott_Ok free paid)))))))"

text \<open>Lines 143 to 147: the providers call.\<close>

definition ott_fetch :: "'v world \<Rightarrow> json \<Rightarrow> (ott_links, ott_links) step" where
  "ott_fetch w movie_id =
     (case http_get w (Watch_Providers (TMDB_API_KEY w) movie_id) of
        Raises e \<Rightarrow> Raise e
      | Resp status body \<Rightarrow>
          if status \<noteq> 200
          then Return (Ott_Error (Msg ''Failed to fetch streaming info from TMDB.''))
          else (case body of
                  Inl e \<Rightarrow> Raise e
                | Inr providers_data \<Rightarrow>
                    (case ott_dict providers_data of Inl e \<Rightarrow> Raise e | Inr r \<Rightarrow> Next r)))"

fun ott_except :: "exn \<Rightarrow> ott_links" where
  "ott_except (ClientError s) = Ott_Error (MsgExn ''Network error: '' (ClientError s))"
| "ott_except e = Ott_Error (MsgExn ''Unexpected error: '' e)"

definition get_ott_links :: "'v world \<Rightarrow> json \<Rightarrow> ott_links \<times> request list" where
  "get_ott_links w movie_name =
     (let search_url = Search_Movie (TMDB_API_KEY w) movie_name in
      case ott_search w movie_name of
        Raise e \<Rightarrow> (ott_except e, [search_url])
      | Return r \<Rightarrow> (r, [search_url])
      | Next movie_id \<Rightarrow>
          let provider_url = Watch_Providers (TMDB_API_KEY w) movie_id in
          (case ott_fetch w movie_id of
             Raise e \<Rightarrow> (ott_except e, [search_url, provider_url])
           | Return r \<Rightarrow> (r, [search_url, provider_url])
           | Next r \<Rightarrow> (r, [search_url, provider_url])))"

section \<open>Aggregation\<close>

text \<open>
  What the run does, as a log: the resolvers and enrichers it invokes with their arguments,
  and the requests that go out. The requests of concurrent tasks are listed task by task.
\<close>

datatype event =
    Call_recommend_ml string int
  | Call_recommend_tmdb string int
  | Call_get_movie_full_details json
  | Call_get_ott_links json
  | Get request

text \<open>
  \<^verbatim>\<open>asyncio.gather\<close>: the tasks complete in the order of their latencies; each result is
  kept with the position of its task, and the list returned is read in position order.
\<close>

definition completion_order :: "(nat \<Rightarrow> nat) \<Rightarrow> nat \<Rightarrow> nat list" where
  "completion_order lat n = sort_key lat [0..<n]"

definition gather :: "(nat \<Rightarrow> nat) \<Rightarrow> 'a list \<Rightarrow> 'a list" where
  "gather lat tasks =
     (let completed = map (\<lambda>i. (i, tasks ! i)) (completion_order lat (length tasks))
      in map snd (sort_key fst completed))"

text \<open>
  One entry of the answer, lines 178 to 187. \<^verbatim>\<open>details.get(field, "N/A")\<close> reads the field of
  a details dictionary and gives the placeholder on an error entry, which has no such key.
\<close>

datatype availability = Streaming "json list" "json list" | Not_Available

record movie_info = movie_detail +
  ott_availability :: availability

fun ott_value :: "ott_links \<Rightarrow> availability" where
  "ott_value (Ott_Ok free paid) = Streaming free paid"
| "ott_value (Ott_Error m) = Not_Available"

fun movie_info_of :: "details \<Rightarrow> ott_links \<Rightarrow> movie_info" where
  "movie_info_of (Details_Ok d) ott =
     \<lparr>title = title d, overview = overview d, rating = rating d,
      release_date = release_date d, cast = cast d, crew = crew d,
      poster_url = poster_url d, ott_availability = ott_value ott\<rparr>"
| "movie_info_of (Details_Error m) ott =
     \<lparr>title = JStr ''N/A'', overview = JStr ''N/A'', rating = JStr ''N/A'',
      release_date = JStr ''N/A'', cast = ''N/A'', crew = ''N/A'',
      poster_url = None, ott_availability = ott_value ott\<rparr>"

text \<open>
  Lines 163 to 166: the index first, the remote catalog when the index gives an error entry.
  Nothing here catches an exception that leaves \<open>recommend_ml\<close>.
\<close>

definition resolve_candidates ::
  "'v world \<Rightarrow> string \<Rightarrow> int \<Rightarrow> (exn + rec_result) \<times> event list" where
  "resolve_candidates w movie_name k =
     (case recommend_ml w movie_name k of
        Inl e \<Rightarrow> (Inl e, [Call_recommend_ml movie_name k])
      | Inr rec_result \<Rightarrow>
          if has_error rec_result
          then (case recommend_tmdb w movie_name k of
                  (fallback, calls) \<Rightarrow>
                    (Inr fallback,
                     [Call_recommend_ml movie_name k, Call_recommend_tmdb movie_name k]
                     @ map Get calls))
          else (Inr rec_result, [Call_recommend_ml movie_name k]))"

text \<open>
  Lines 171 to 174, one task: both enrichers on the same title, joined into a pair.
\<close>

definition enrich :: "'v world \<Rightarrow> json \<Rightarrow> (details \<times> ott_links) \<times> event list" where
  "enrich w t =
     (case get_movie_full_details w t of
        (details, calls1) \<Rightarrow>
          (case get_ott_links w t of
             (ott, calls2) \<Rightarrow>
               ((details, ott),
                Call_get_movie_full_details t # map Get calls1
                @ Call_get_ott_links t # map Get calls2)))"

text \<open>
  The value of \<^verbatim>\<open>get_full_recommendations\<close> is the list under \<^verbatim>\<open>"recommended_movies"\<close>,
  or the exception that left \<open>recommend_ml\<close>; the second component is the log.
\<close>

definition get_full_recommendations ::
  "'v world \<Rightarrow> string \<Rightarrow> int \<Rightarrow> (exn + movie_info list) \<times> event list" where
  "get_full_recommendations w movie_name k =
     (case resolve_candidates w movie_name k of
        (Inl e, resolution) \<Rightarrow> (Inl e, resolution)
      | (Inr rec_result, resolution) \<Rightarrow>
          let recommended_titles = recommended_movies rec_result;
              tasks = map (enrich w) recommended_titles;
              results = gather (latency w) tasks;
              full_recommendations = map (\<lambda>r. movie_info_of (fst (fst r)) (snd (fst r))) results
          in (Inr full_recommendations, resolution @ concat (map snd tasks)))"

subsection \<open>\<^verbatim>\<open>recommend\<close> of \<^verbatim>\<open>app.py\<close>\<close>

text \<open>
  The function returns the dictionary of \<^verbatim>\<open>get_full_recommendations\<close>, or an error entry
  with a status code, or (on its own path to the catalog) the slice of the recommendations
  document. That path has no \<^verbatim>\<open>try\<close>: an exception leaves the function. On the first path
  the handler of lines 68 to 70 turns an exception of \<open>get_full_recommendations\<close> into the
  error entry with status 500.
\<close>

datatype recommend_result =
    Full_Recommendations "movie_info list"
  | Failure message int
  | Results json

text \<open>Lines 78 to 87.\<close>

definition app_search :: "'v world \<Rightarrow> string \<Rightarrow> string \<Rightarrow> (recommend_result, json) step" where
  "app_search w api_key movie_name =
     (case first_result (http_get w (Search_Movie api_key (JStr movie_name)))
             (Failure (Msg ''Failed to fetch movie info.'') 500)
             (Failure (Msg ''Movie not found.'') 404) of
        Raise e \<Rightarrow> Raise e
      | Return r \<Rightarrow> Return r
      | Next top_match \<Rightarrow>
          (case py_item top_match ''id'' of
             Inl e \<Rightarrow> Raise e
           | Inr movie_id \<Rightarrow> Next movie_id))"

text \<open>Lines 88 to 95.\<close>

definition app_recommendations ::
  "'v world \<Rightarrow> string \<Rightarrow> json \<Rightarrow> int \<Rightarrow> (recommend_result, recommend_result) step" where
  "app_recommendations w api_key movie_id k =
     (case http_get w (Recommendations api_key movie_id) of
        Raises e \<Rightarrow> Raise e
      | Resp status body \<Rightarrow>
          if status \<noteq> 200 then Return (Failure (Msg ''Failed to fetch recommendations.'') 500)
          else (case body of
                  Inl e \<Rightarrow> Raise e
                | Inr rec_data \<Rightarrow>
                    (case py_get rec_data ''results'' (JList []) of
                       Inl e \<Rightarrow> Raise e
                     | Inr results \<Rightarrow>
                         (case py_slice_to k results of
                            Inl e \<Rightarrow> Raise e
                          | Inr recommendations \<Rightarrow> Next (Results recommendations)))))"

fun outcome :: "('r, 'r) step \<Rightarrow> exn + 'r" where
  "outcome (Raise e) = Inl e"
| "outcome (Return r) = Inr r"
| "outcome (Next r) = Inr r"

definition recommend ::
  "'v world \<Rightarrow> string \<Rightarrow> int \<Rightarrow> (exn + recommend_result) \<times> event list" where
  "recommend w movie_name k =
     (if train_model_imported w
      then (case get_full_recommendations w movie_name k of
              (Inl e, events) \<Rightarrow>
                (Inr (Failure (Msg ''Failed to fetch recommendations.'') 500), events)
            | (Inr recs, events) \<Rightarrow> (Inr (Full_Recommendations recs), events))
      else (case environ w ''TMDB_API_KEY'' of
              None \<Rightarrow> (Inr (Failure (Msg ''TMDB API key is missing.'') 500), [])
            | Some api_key \<Rightarrow>
                if api_key = [] then (Inr (Failure (Msg ''TMDB API key is missing.'') 500), [])
                else
                  let search_url = Search_Movie api_key (JStr movie_name) in
                  (case app_search w api_key movie_name of
                     Raise e \<Rightarrow> (Inl e, [Get search_url])
                   | Return r \<Rightarrow> (Inr r, [Get search_url])
                   | Next movie_id \<Rightarrow>
                       (outcome (app_recommendations w api_key movie_id k),
                        [Get search_url, Get (Recommendations api_key movie_id)]))))"

section \<open>Predicates of the specification\<close>

text \<open>Log entries that invoke the fallback resolver, and entries that start an enrichment.\<close>

fun is_fallback_call :: "event \<Rightarrow> bool" where
  "is_fallback_call (Call_recommend_tmdb q k) = True"
| "is_fallback_call _ = False"

fun is_enrichment :: "event \<Rightarrow> bool" where
  "is_enrichment (Call_get_movie_full_details t) = True"
| "is_enrichment (Call_get_ott_links t) = True"
| "is_enrichment _ = False"

text \<open>Whether the index lookup returned, and what it returned is an error entry.\<close>

fun returns_error :: "exn + rec_result \<Rightarrow> bool" where
  "returns_error (Inr r) = has_error r"
| "returns_error (Inl e) = False"

text \<open>Whether \<^verbatim>\<open>recommend\<close> hands its caller an error entry with a status code.\<close>

fun is_failure :: "exn + recommend_result \<Rightarrow> bool" where
  "is_failure (Inr (Failure m c)) = True"
| "is_failure _ = False"

text \<open>
  A search call fails to resolve a title: it raises, answers with a status other than 200,
  has a body that is not JSON or not an object, lists no result, or lists a top result
  without an identifier.
\<close>

definition search_call_fails :: "response \<Rightarrow> bool" where
  "search_call_fails resp =
     (case resp of
        Raises e \<Rightarrow> True
      | Resp status body \<Rightarrow>
          status \<noteq> 200 \<or>
          (case body of
             Inl e \<Rightarrow> True
           | Inr data \<Rightarrow>
               (case py_get data ''results'' JNull of
                  Inl e \<Rightarrow> True
                | Inr results \<Rightarrow>
                    \<not> truthy results \<or>
                    (case py_item0 results of
                       Inl e \<Rightarrow> True
                     | Inr top_match \<Rightarrow>
                         (case py_item top_match ''id'' of Inl e \<Rightarrow> True | Inr i \<Rightarrow> False)))))"

text \<open>A crew member credited as director: the role tag equals \<^verbatim>\<open>"Director"\<close>.\<close>

definition is_director :: "json \<Rightarrow> bool" where
  "is_director member = (py_get member ''job'' JNull = Inr (JStr ''Director''))"

section \<open>Example surroundings\<close>

text \<open>A catalog that knows no movie: every search answers with an empty result list.\<close>

definition empty_catalog :: "request \<Rightarrow> response" where
  "empty_catalog r = Resp 200 (Inr (JObj [(''results'', JList [])]))"

text \<open>
  A catalog of four movies. Every search finds the movie of that title (any other query finds
  the first movie), the first movie has three similar titles, and the streaming-provider
  endpoint is out of service.
\<close>

definition catalog_id :: "json \<Rightarrow> json" where
  "catalog_id q =
     (if q = JStr ''Aliens'' then JNum 679
      else if q = JStr ''Dune'' then JNum 438631
      else if q = JStr ''Titanic'' then JNum 597
      else JNum 19995)"

definition catalog_title :: "json \<Rightarrow> json" where
  "catalog_title i =
     (if i = JNum 679 then JStr ''Aliens''
      else if i = JNum 438631 then JStr ''Dune''
      else if i = JNum 597 then JStr ''Titanic''
      else JStr ''Avatar'')"

definition sample_cast :: "json list" where
  "sample_cast =
     [JObj [(''name'', JStr ''Sam'')], JObj [(''name'', JStr ''Zoe'')],
      JObj [(''name'', JStr ''Sigourney'')], JObj [(''name'', JStr ''Stephen'')]]"

definition sample_crew :: "json list" where
  "sample_crew =
     [JObj [(''name'', JStr ''Jon''), (''job'', JStr ''Producer'')],
      JObj [(''name'', JStr ''James''), (''job'', JStr ''Director'')]]"

fun avatar_catalog :: "request \<Rightarrow> response" where
  "avatar_catalog (Search_Movie key q) =
     Resp 200 (Inr (JObj [(''results'',
       JList [JObj [(''id'', catalog_id q), (''poster_path'', JStr ''/poster.jpg'')]])]))"
| "avatar_catalog (Similar key i) =
     Resp 200 (Inr (JObj [(''results'',
       JList [JObj [(''title'', JStr ''Aliens'')], JObj [(''title'', JStr ''Dune'')],
              JObj [(''title'', JStr ''Titanic'')]])]))"
| "avatar_catalog (Movie key i) =
     Resp 200 (Inr (JObj [(''title'', catalog_title i), (''overview'', JStr ''A film''),
       (''vote_average'', JNum 7), (''release_date'', JStr ''2009-12-18'')]))"
| "avatar_catalog (Credits key i) =
     Resp 200 (Inr (JObj [(''cast'', JList sample_cast), (''crew'', JList sample_crew)]))"
| "avatar_catalog (Watch_Providers key i) = Resp 503 (Inr JNull)"
| "avatar_catalog (Recommendations key i) = Resp 200 (Inr (JObj [(''results'', JList [])]))"

text \<open>The same catalog, except that the movie has no similar titles.\<close>

fun lonely_catalog :: "request \<Rightarrow> response" where
  "lonely_catalog (Similar key i) = Resp 200 (Inr (JObj [(''results'', JList [])]))"
| "lonely_catalog r = avatar_catalog r"

text \<open>Feature vectors are the normalised queries themselves in the examples.\<close>

definition no_model :: "(request \<Rightarrow> response) \<Rightarrow> string world" where
  "no_model catalog =
     \<lparr>environ = (\<lambda>name. None), knn_model = None, vectorizer = None, movies_df = None,
      train_model_imported = True, http_get = catalog, latency = (\<lambda>i. 0)\<rparr>"

definition notamovie_world :: "string world" where
  "notamovie_world = no_model empty_catalog"

definition fallback_world :: "string world" where
  "fallback_world = no_model avatar_catalog"

definition lonely_world :: "string world" where
  "lonely_world = no_model lonely_catalog"

text \<open>An index over four movies; every query has the same ranking.\<close>

definition four_neighbors :: "string \<Rightarrow> int \<Rightarrow> exn + nat list" where
  "four_neighbors v n =
     (if 0 < n \<and> n \<le> 4 then Inr (take (nat n) [0, 1, 2, 3]) else Inl (OtherError ''ValueError''))"

definition ml_world :: "string world" where
  "ml_world =
     \<lparr>environ = (\<lambda>name. None), knn_model = Some four_neighbors, vectorizer = Some (\<lambda>s. Inr s),
      movies_df = Some [JStr ''Avatar'', JStr ''Aliens'', JStr ''Dune'', JStr ''Titanic''],
      train_model_imported = True, http_get = avatar_catalog, latency = (\<lambda>i. 10 - i)\<rparr>"

text \<open>
  The same index, but the object loaded as vectorizer has no \<^verbatim>\<open>transform\<close>: the call raises
  \<^verbatim>\<open>AttributeError\<close>.
\<close>

definition unfitted_world :: "string world" where
  "unfitted_world =
     \<lparr>environ = (\<lambda>name. None), knn_model = Some four_neighbors,
      vectorizer = Some (\<lambda>s. Inl AttributeError),
      movies_df = Some [JStr ''Avatar'', JStr ''Aliens'', JStr ''Dune'', JStr ''Titanic''],
      train_model_imported = True, http_get = avatar_catalog, latency = (\<lambda>i. 0)\<rparr>"

text \<open>The environment sets the key to the empty string.\<close>

definition empty_key_world :: "string world" where
  "empty_key_world =
     \<lparr>environ = (\<lambda>name. if name = ''TMDB_API_KEY'' then Some [] else None),
      knn_model = None, vectorizer = None, movies_df = None,
      train_model_imported = False, http_get = avatar_catalog, latency = (\<lambda>i. 0)\<rparr>"

text \<open>What the four-movie catalog tells about one of its movies.\<close>

definition dune_detail :: movie_detail where
  "dune_detail =
     \<lparr>title = JStr ''Dune'', overview = JStr ''A film'', rating = JNum 7,
      release_date = JStr ''2009-12-18'', cast = ''Sam, Zoe, Sigourney'', crew = ''James'',
      poster_url = Some (Fmt ''https://image.tmdb.org/t/p/w500'' (JStr ''/poster.jpg''))\<rparr>"

section \<open>Auxiliary facts\<close>

subsection \<open>Joining concurrent tasks\<close>

lemma tagged_snd:
  "\<forall>p \<in> set ps. snd p = f (fst p) \<Longrightarrow> map snd ps = map f (map fst ps)"
  by (induction ps) auto

lemma completion_order_set: "set (completion_order lat n) = {0..<n}"
  by (simp add: completion_order_def)

lemma completion_order_distinct: "distinct (completion_order lat n)"
  by (simp add: completion_order_def)

text \<open>Whatever the latencies, the joined list is the list of the tasks' results in task order.\<close>

lemma gather_eq: "gather lat tasks = tasks"
proof -
  let ?n = "length tasks"
  let ?order = "completion_order lat ?n"
  let ?completed = "map (\<lambda>i. (i, tasks ! i)) ?order"
  let ?ps = "sort_key fst ?completed"
  have "distinct ?completed"
    by (simp add: distinct_map completion_order_distinct inj_on_def)
  then have "distinct ?ps" by simp
  moreover have "inj_on fst (set ?ps)"
    by (auto simp: inj_on_def)
  ultimately have d: "distinct (map fst ?ps)"
    by (simp only: distinct_map simp_thms)
  have s: "set (map fst ?ps) = {0..<?n}"
    by (simp add: completion_order_set image_image)
  have "sorted (map fst ?ps)" by simp
  with d s have idx: "map fst ?ps = [0..<?n]"
    by (intro sorted_distinct_set_unique) simp_all
  have "\<forall>p \<in> set ?ps. snd p = tasks ! fst p"
    by auto
  then have "map snd ?ps = map (\<lambda>i. tasks ! i) (map fst ?ps)"
    by (rule tagged_snd)
  also have "\<dots> = tasks"
    unfolding idx by (simp add: map_nth)
  finally show ?thesis
    by (simp add: gather_def)
qed

subsection \<open>The aggregator, unfolded\<close>

lemma fst_enrich:
  "fst (enrich w t) = (fst (get_movie_full_details w t), fst (get_ott_links w t))"
  by (simp add: enrich_def split: prod.splits)

lemma snd_enrich:
  "snd (enrich w t) =
     Call_get_movie_full_details t # map Get (snd (get_movie_full_details w t))
     @ Call_get_ott_links t # map Get (snd (get_ott_links w t))"
  by (simp add: enrich_def split: prod.splits)

lemma resolve_candidates_returns:
  assumes "recommend_ml w q k = Inr r"
  shows "fst (resolve_candidates w q k) = Inr (if has_error r then fst (recommend_tmdb w q k) else r)"
    and "snd (resolve_candidates w q k) =
      (if has_error r
       then [Call_recommend_ml q k, Call_recommend_tmdb q k] @ map Get (snd (recommend_tmdb w q k))
       else [Call_recommend_ml q k])"
  using assms by (simp_all add: resolve_candidates_def split: prod.splits)

lemma resolve_candidates_raises:
  assumes "recommend_ml w q k = Inl e"
  shows "resolve_candidates w q k = (Inl e, [Call_recommend_ml q k])"
  using assms by (simp add: resolve_candidates_def)

lemma full_recommendations_value:
  assumes "fst (resolve_candidates w q k) = Inr rec_result"
  shows "fst (get_full_recommendations w q k) =
     Inr (map (\<lambda>t. movie_info_of (fst (get_movie_full_details w t)) (fst (get_ott_links w t)))
           (recommended_movies rec_result))"
  using assms
  by (cases "resolve_candidates w q k")
    (simp add: get_full_recommendations_def gather_eq fst_enrich Let_def comp_def)

lemma full_recommendations_log:
  assumes "fst (resolve_candidates w q k) = Inr rec_result"
  shows "snd (get_full_recommendations w q k) =
     snd (resolve_candidates w q k)
     @ concat (map (\<lambda>t. snd (enrich w t)) (recommended_movies rec_result))"
  using assms
  by (cases "resolve_candidates w q k")
    (simp add: get_full_recommendations_def Let_def comp_def)

lemma full_recommendations_raises:
  assumes "recommend_ml w q k = Inl e"
  shows "get_full_recommendations w q k = (Inl e, [Call_recommend_ml q k])"
  by (simp add: get_full_recommendations_def resolve_candidates_raises [OF assms])

lemma no_fallback_in_gets: "filter is_fallback_call (map Get calls) = []"
  by (induction calls) auto

lemma no_fallback_in_enrich: "filter is_fallback_call (snd (enrich w t)) = []"
  by (simp add: snd_enrich no_fallback_in_gets)

lemma no_fallback_in_tasks:
  "filter is_fallback_call (concat (map (\<lambda>t. snd (enrich w t)) ts)) = []"
  by (induction ts) (simp_all add: no_fallback_in_enrich)

subsection \<open>Evaluating the examples\<close>

lemmas world_simps = no_model_def notamovie_world_def fallback_world_def lonely_world_def
  ml_world_def unfitted_world_def empty_key_world_def four_neighbors_def empty_catalog_def
  catalog_id_def catalog_title_def

lemmas resolver_simps = recommend_ml_def ml_try_def recommend_tmdb_def tmdb_search_def
  tmdb_similar_def first_result_def TMDB_API_KEY_def squeeze_tail_def iloc_title_def slice_to_def

lemma fallback_world_ml_fails: "returns_error (recommend_ml fallback_world ''Avatar'' 5)"
  by (simp add: world_simps recommend_ml_def)

lemma ml_world_avatar:
  "recommend_ml ml_world ''Avatar'' 2 = Inr (Rec_Ok [JStr ''Aliens'', JStr ''Dune''] ''ML model'')"
  by (simp add: world_simps resolver_simps)

lemma lower_strip_avatar: "lower_strip ''Avatar'' = ''avatar''"
  by code_simp

lemma lower_strip_notamovie: "lower_strip ''Zzzznotamovie123'' = ''zzzznotamovie123''"
  by code_simp

section \<open>Fallback activation\<close>

text \<open>
  When the index lookup returns an error entry, the fallback resolver is invoked exactly once,
  with the same query and the same \<open>k\<close>, and its answer is the resolution; when the lookup
  returns titles, the fallback resolver is not invoked and the lookup's answer is the
  resolution.
\<close>

lemma fallback_on_error_entry:
  assumes "recommend_ml w q k = Inr r"
  shows "has_error r \<longrightarrow>
      fst (resolve_candidates w q k) = Inr (fst (recommend_tmdb w q k))
      \<and> filter is_fallback_call (snd (get_full_recommendations w q k)) = [Call_recommend_tmdb q k]"
    and "\<not> has_error r \<longrightarrow>
      fst (resolve_candidates w q k) = Inr r
      \<and> filter is_fallback_call (snd (get_full_recommendations w q k)) = []"
  using resolve_candidates_returns [OF assms]
    full_recommendations_log [of w q k "if has_error r then fst (recommend_tmdb w q k) else r"]
  by (simp_all add: no_fallback_in_tasks no_fallback_in_gets)

text \<open>
  Claim C3: whenever the index lookup fails, for any reason, the fallback resolver is invoked
  exactly once with the same query and \<open>k\<close>. The code breaks this when the lookup fails at
  \<^verbatim>\<open>vectorizer.transform\<close>: in the run below the object loaded as vectorizer has no
  \<^verbatim>\<open>transform\<close>, the exception leaves \<open>recommend_ml\<close> and \<open>get_full_recommendations\<close>, the
  fallback resolver is never invoked, no request goes out, and \<^verbatim>\<open>recommend\<close> answers with
  status 500.
\<close>

theorem transform_failure_skips_fallback:
  "recommend_ml unfitted_world ''Avatar'' 5 = Inl AttributeError
   \<and> get_full_recommendations unfitted_world ''Avatar'' 5
       = (Inl AttributeError, [Call_recommend_ml ''Avatar'' 5])
   \<and> filter is_fallback_call (snd (get_full_recommendations unfitted_world ''Avatar'' 5)) = []
   \<and> recommend unfitted_world ''Avatar'' 5
       = (Inr (Failure (Msg ''Failed to fetch recommendations.'') 500),
          [Call_recommend_ml ''Avatar'' 5])"
proof -
  have r: "recommend_ml unfitted_world ''Avatar'' 5 = Inl AttributeError"
    by (simp add: world_simps recommend_ml_def)
  have t: "train_model_imported unfitted_world"
    by (simp add: world_simps)
  show ?thesis
    using t by (simp add: r recommend_def full_recommendations_raises [OF r])
qed

section \<open>Both tiers exhausted\<close>

lemma no_enrichment_in_gets: "filter is_enrichment (map Get calls) = []"
  by (induction calls) auto

lemma resolution_has_no_enrichment: "filter is_enrichment (snd (resolve_candidates w q k)) = []"
  by (cases "recommend_tmdb w q k")
    (simp add: resolve_candidates_def no_enrichment_in_gets split: sum.splits)

lemma both_tiers_fail:
  assumes "returns_error (recommend_ml w q k)" and "has_error (fst (recommend_tmdb w q k))"
  shows "fst (get_full_recommendations w q k) = Inr []"
    and "filter is_enrichment (snd (get_full_recommendations w q k)) = []"
proof -
  from assms(1) obtain r where r: "recommend_ml w q k = Inr r" "has_error r"
    by (cases "recommend_ml w q k") simp_all
  then have res: "fst (resolve_candidates w q k) = Inr (fst (recommend_tmdb w q k))"
    by (simp add: resolve_candidates_returns)
  from assms(2) have "recommended_movies (fst (recommend_tmdb w q k)) = []"
    by (cases "fst (recommend_tmdb w q k)") simp_all
  then show "fst (get_full_recommendations w q k) = Inr []"
    and "filter is_enrichment (snd (get_full_recommendations w q k)) = []"
    by (simp_all add: full_recommendations_value [OF res] full_recommendations_log [OF res]
        resolution_has_no_enrichment)
qed

lemma recommend_tmdb_not_found:
  assumes "TMDB_API_KEY w \<noteq> []"
    and "http_get w (Search_Movie (TMDB_API_KEY w) (JStr (lower_strip q))) = Resp 200 (Inr data)"
    and "py_get data ''results'' JNull = Inr results"
    and "\<not> truthy results"
  shows "recommend_tmdb w q k =
     (Rec_Error (Msg ''Movie not found in TMDB.''),
      [Search_Movie (TMDB_API_KEY w) (JStr (lower_strip q))])"
  using assms by (simp add: recommend_tmdb_def tmdb_search_def first_result_def)

text \<open>
  Claim C1, as stated: when the index tier fails and the fallback's search finds nothing,
  \<^verbatim>\<open>recommend\<close> hands its caller a not-found error. In the example below both premises hold
  and \<^verbatim>\<open>recommend\<close> answers with a well-formed dictionary, not with an error entry.
\<close>

theorem notfound_not_surfaced:
  "returns_error (recommend_ml notamovie_world ''Zzzznotamovie123'' 9)
   \<and> fst (recommend_tmdb notamovie_world ''Zzzznotamovie123'' 9)
       = Rec_Error (Msg ''Movie not found in TMDB.'')
   \<and> \<not> is_failure (fst (recommend notamovie_world ''Zzzznotamovie123'' 9))"
  by (simp add: world_simps resolver_simps recommend_def get_full_recommendations_def
      resolve_candidates_def gather_eq split: prod.splits)

text \<open>
  Claim C1, amended. When the index tier fails and the fallback's search for the query lists
  no result, \<open>recommend_tmdb\<close> reports \<^verbatim>\<open>Movie not found in TMDB.\<close> to the aggregator, which
  reads \<^verbatim>\<open>rec_result.get("recommended_movies", [])\<close>: \<^verbatim>\<open>recommend\<close> returns the dictionary
  with an empty list of recommendations, and the run consists of the two resolver calls and
  the one search request, so no enrichment is attempted for any title.
\<close>

theorem notfound_gives_empty_list:
  assumes "returns_error (recommend_ml w q k)"
    and "TMDB_API_KEY w \<noteq> []"
    and "http_get w (Search_Movie (TMDB_API_KEY w) (JStr (lower_strip q))) = Resp 200 (Inr data)"
    and "py_get data ''results'' JNull = Inr results"
    and "\<not> truthy results"
    and "train_model_imported w"
  shows "fst (recommend_tmdb w q k) = Rec_Error (Msg ''Movie not found in TMDB.'')
    \<and> recommend w q k =
        (Inr (Full_Recommendations []),
         [Call_recommend_ml q k, Call_recommend_tmdb q k,
          Get (Search_Movie (TMDB_API_KEY w) (JStr (lower_strip q)))])"
proof -
  have t: "recommend_tmdb w q k =
     (Rec_Error (Msg ''Movie not found in TMDB.''),
      [Search_Movie (TMDB_API_KEY w) (JStr (lower_strip q))])"
    using assms(2-5) by (rule recommend_tmdb_not_found)
  from assms(1) obtain r where ml: "recommend_ml w q k = Inr r" "has_error r"
    by (cases "recommend_ml w q k") simp_all
  have r: "resolve_candidates w q k =
     (Inr (Rec_Error (Msg ''Movie not found in TMDB.'')),
      [Call_recommend_ml q k, Call_recommend_tmdb q k,
       Get (Search_Movie (TMDB_API_KEY w) (JStr (lower_strip q)))])"
    using ml by (simp add: resolve_candidates_def t)
  have "get_full_recommendations w q k =
     (Inr [], [Call_recommend_ml q k, Call_recommend_tmdb q k,
       Get (Search_Movie (TMDB_API_KEY w) (JStr (lower_strip q)))])"
    by (simp add: get_full_recommendations_def r gather_eq)
  then show ?thesis
    using assms(6) by (simp add: recommend_def t)
qed

theorem notfound_gives_empty_list_witness:
  "returns_error (recommend_ml notamovie_world ''Zzzznotamovie123'' 9)
   \<and> train_model_imported notamovie_world
   \<and> recommend notamovie_world ''Zzzznotamovie123'' 9 =
        (Inr (Full_Recommendations []),
         [Call_recommend_ml ''Zzzznotamovie123'' 9, Call_recommend_tmdb ''Zzzznotamovie123'' 9,
          Get (Search_Movie (TMDB_API_KEY notamovie_world)
                 (JStr (lower_strip ''Zzzznotamovie123'')))])"
proof -
  have 1: "returns_error (recommend_ml notamovie_world ''Zzzznotamovie123'' 9)"
    by (simp add: world_simps recommend_ml_def)
  have 2: "TMDB_API_KEY notamovie_world \<noteq> []"
    by (simp add: world_simps TMDB_API_KEY_def)
  have 3: "http_get notamovie_world
      (Search_Movie (TMDB_API_KEY notamovie_world) (JStr (lower_strip ''Zzzznotamovie123'')))
      = Resp 200 (Inr (JObj [(''results'', JList [])]))"
    by (simp add: world_simps)
  have 4: "py_get (JObj [(''results'', JList [])]) ''results'' JNull = Inr (JList [])"
    by simp
  have 5: "\<not> truthy (JList [])" by simp
  have 6: "train_model_imported notamovie_world" by (simp add: world_simps)
  show ?thesis
    using notfound_gives_empty_list [OF 1 2 3 4 5 6] 1 6 by simp
qed

text \<open>
  Claim C10. When the fallback's search finds a top match and the similar-titles response
  lists no result, \<open>recommend_tmdb\<close> returns an error entry, not an empty candidate list, and
  the aggregator answers as it does after any failure of both resolvers: an empty list, with
  no enrichment.
\<close>

theorem no_similar_titles_is_an_error:
  assumes "returns_error (recommend_ml w q k)"
    and "TMDB_API_KEY w \<noteq> []"
    and "tmdb_search w (lower_strip q) = Next movie_id"
    and "http_get w (Similar (TMDB_API_KEY w) movie_id) = Resp 200 (Inr similar_data)"
    and "py_get similar_data ''results'' JNull = Inr results"
    and "\<not> truthy results"
  shows "fst (recommend_tmdb w q k) = Rec_Error (Msg ''No similar movies found on TMDB.'')
    \<and> fst (get_full_recommendations w q k) = Inr []
    \<and> filter is_enrichment (snd (get_full_recommendations w q k)) = []
    \<and> (\<forall>w' q' k'. returns_error (recommend_ml w' q' k') \<and> has_error (fst (recommend_tmdb w' q' k'))
          \<longrightarrow> fst (get_full_recommendations w' q' k') = fst (get_full_recommendations w q k))"
proof -
  have t: "fst (recommend_tmdb w q k) = Rec_Error (Msg ''No similar movies found on TMDB.'')"
    using assms(2-6) by (simp add: recommend_tmdb_def tmdb_similar_def)
  then have e: "has_error (fst (recommend_tmdb w q k))" by simp
  note here = both_tiers_fail [OF assms(1) e]
  have "\<forall>w' q' k'. returns_error (recommend_ml w' q' k') \<and> has_error (fst (recommend_tmdb w' q' k'))
          \<longrightarrow> fst (get_full_recommendations w' q' k') = fst (get_full_recommendations w q k)"
    by (simp add: here(1) both_tiers_fail(1))
  with t here show ?thesis by simp
qed

theorem no_similar_titles_is_an_error_witness:
  "returns_error (recommend_ml lonely_world ''Avatar'' 5)
   \<and> tmdb_search lonely_world (lower_strip ''Avatar'') = Next (JNum 19995)
   \<and> fst (recommend_tmdb lonely_world ''Avatar'' 5)
       = Rec_Error (Msg ''No similar movies found on TMDB.'')
   \<and> returns_error (recommend_ml notamovie_world ''Zzzznotamovie123'' 9)
   \<and> has_error (fst (recommend_tmdb notamovie_world ''Zzzznotamovie123'' 9))
   \<and> fst (get_full_recommendations notamovie_world ''Zzzznotamovie123'' 9)
       = fst (get_full_recommendations lonely_world ''Avatar'' 5)"
proof -
  have 1: "returns_error (recommend_ml lonely_world ''Avatar'' 5)"
    by (simp add: world_simps recommend_ml_def)
  have 2: "TMDB_API_KEY lonely_world \<noteq> []"
    by (simp add: world_simps TMDB_API_KEY_def)
  have 3: "tmdb_search lonely_world (lower_strip ''Avatar'') = Next (JNum 19995)"
    by (simp add: world_simps tmdb_search_def first_result_def lower_strip_avatar TMDB_API_KEY_def)
  have 4: "http_get lonely_world (Similar (TMDB_API_KEY lonely_world) (JNum 19995))
      = Resp 200 (Inr (JObj [(''results'', JList [])]))"
    by (simp add: world_simps)
  have 5: "py_get (JObj [(''results'', JList [])]) ''results'' JNull = Inr (JList [])"
    by simp
  have 6: "\<not> truthy (JList [])" by simp
  have 7: "returns_error (recommend_ml notamovie_world ''Zzzznotamovie123'' 9)"
    by (simp add: world_simps recommend_ml_def)
  have 8: "has_error (fst (recommend_tmdb notamovie_world ''Zzzznotamovie123'' 9))"
    by (simp add: world_simps resolver_simps)
  show ?thesis
    using no_similar_titles_is_an_error [OF 1 2 3 4 5 6] 1 3 7 8 by blast
qed

section \<open>The API key\<close>

text \<open>
  Claim C8, as stated: an operation that contacts the catalog returns the missing-key error
  before any remote call when the key is absent from the configuration. In the example the
  environment has no \<^verbatim>\<open>TMDB_API_KEY\<close>; \<open>recommend_tmdb\<close> does not return that error and
  issues requests, with the key built into \<^verbatim>\<open>train_model.py\<close>.
\<close>

theorem missing_key_counterexample:
  "environ fallback_world ''TMDB_API_KEY'' = None
   \<and> fst (recommend_tmdb fallback_world ''Avatar'' 5) \<noteq> Rec_Error (Msg ''TMDB API key is missing.'')
   \<and> snd (recommend_tmdb fallback_world ''Avatar'' 5) \<noteq> []"
  by (simp add: world_simps resolver_simps lower_strip_avatar Let_def)

text \<open>
  Claim C8, amended. \<open>recommend_tmdb\<close> returns the missing-key error, with no request issued,
  when the environment sets \<^verbatim>\<open>TMDB_API_KEY\<close> to the empty string; when the variable is absent
  the built-in key is used, which is not empty. \<^verbatim>\<open>recommend\<close> of \<^verbatim>\<open>app.py\<close>, on its own path
  to the catalog (taken when \<^verbatim>\<open>get_full_recommendations\<close> could not be imported), returns
  the missing-key error with status 500, with no request issued, when the variable is absent
  or empty.
\<close>

theorem missing_key:
  "(environ w ''TMDB_API_KEY'' = Some [] \<longrightarrow>
      recommend_tmdb w q k = (Rec_Error (Msg ''TMDB API key is missing.''), []))
   \<and> (environ w ''TMDB_API_KEY'' = None \<longrightarrow> TMDB_API_KEY w \<noteq> [])
   \<and> (\<not> train_model_imported w
        \<and> (environ w ''TMDB_API_KEY'' = None \<or> environ w ''TMDB_API_KEY'' = Some []) \<longrightarrow>
      recommend w q k = (Inr (Failure (Msg ''TMDB API key is missing.'') 500), []))"
  by (auto simp: recommend_tmdb_def TMDB_API_KEY_def recommend_def)

theorem missing_key_witness:
  "environ empty_key_world ''TMDB_API_KEY'' = Some []
   \<and> recommend_tmdb empty_key_world ''Avatar'' 5 = (Rec_Error (Msg ''TMDB API key is missing.''), [])
   \<and> \<not> train_model_imported empty_key_world
   \<and> recommend empty_key_world ''Avatar'' 5 = (Inr (Failure (Msg ''TMDB API key is missing.'') 500), [])
   \<and> environ fallback_world ''TMDB_API_KEY'' = None
   \<and> TMDB_API_KEY fallback_world \<noteq> []"
proof -
  have 1: "environ empty_key_world ''TMDB_API_KEY'' = Some []"
    by (simp add: world_simps)
  have 2: "\<not> train_model_imported empty_key_world"
    by (simp add: world_simps)
  have 3: "environ fallback_world ''TMDB_API_KEY'' = None"
    by (simp add: world_simps)
  show ?thesis
    using missing_key [of empty_key_world "''Avatar''" 5] missing_key [of fallback_world] 1 2 3
    by simp
qed

section \<open>The similarity index\<close>

lemma recommend_ml_okD:
  assumes "recommend_ml w q k = Inr (Rec_Ok ts src)"
  shows "\<exists>kneighbors transform df v row.
           knn_model w = Some kneighbors \<and> vectorizer w = Some transform \<and> movies_df w = Some df
           \<and> transform (lower_strip q) = Inr v
           \<and> kneighbors v (k + 1) = Inr row
           \<and> length row \<noteq> 1
           \<and> (\<forall>i \<in> set (drop 1 row). i < length df)
           \<and> ts = map (\<lambda>i. df ! i) (drop 1 row)
           \<and> src = ''ML model''"
  using assms
  by (auto simp: recommend_ml_def ml_try_def squeeze_tail_def iloc_title_def Let_def list_all_iff
      split: option.splits sum.splits if_splits)

lemma four_neighbors_contract:
  "knn_model ml_world = Some kneighbors \<Longrightarrow> kneighbors v n = Inr row \<Longrightarrow> length row = nat n"
  by (auto simp: ml_world_def four_neighbors_def split: if_splits)

text \<open>
  Claim C7. For \<open>k \<ge> 1\<close>, a successful lookup has asked the fitted index for \<open>k + 1\<close>
  neighbours of the vectorised, normalised query, has left out the first of them, and returns
  the titles of the \<open>k\<close> remaining ones in neighbour order. The third premise is the contract
  of \<^verbatim>\<open>kneighbors\<close>: a call that succeeds gives as many neighbours as were asked for. The
  distance by which the index ranks is a property of the fitted artifact.
\<close>

theorem similarity_lookup:
  assumes "1 \<le> k"
    and "recommend_ml w q k = Inr (Rec_Ok ts src)"
    and "\<And>kneighbors v n row. knn_model w = Some kneighbors \<Longrightarrow> kneighbors v n = Inr row
           \<Longrightarrow> length row = nat n"
  shows "\<exists>kneighbors transform df v row.
           knn_model w = Some kneighbors \<and> vectorizer w = Some transform \<and> movies_df w = Some df
           \<and> transform (lower_strip q) = Inr v
           \<and> kneighbors v (k + 1) = Inr row
           \<and> length row = nat k + 1
           \<and> ts = map (\<lambda>i. df ! i) (drop 1 row)
           \<and> length ts = nat k"
proof -
  from assms(2) obtain kneighbors transform df v row where
    h: "knn_model w = Some kneighbors" "vectorizer w = Some transform" "movies_df w = Some df"
       "transform (lower_strip q) = Inr v"
       "kneighbors v (k + 1) = Inr row"
       "ts = map (\<lambda>i. df ! i) (drop 1 row)"
    using recommend_ml_okD by blast
  from assms(3) [OF h(1) h(5)] assms(1) have len: "length row = nat k + 1"
    by (simp add: nat_add_distrib)
  with h show ?thesis by simp
qed

theorem similarity_lookup_witness:
  "(1::int) \<le> 2
   \<and> recommend_ml ml_world ''Avatar'' 2 = Inr (Rec_Ok [JStr ''Aliens'', JStr ''Dune''] ''ML model'')
   \<and> (\<exists>kneighbors transform df v row.
           knn_model ml_world = Some kneighbors \<and> vectorizer ml_world = Some transform
           \<and> movies_df ml_world = Some df
           \<and> transform (lower_strip ''Avatar'') = Inr v
           \<and> kneighbors v (2 + 1) = Inr row
           \<and> length row = nat 2 + 1
           \<and> [JStr ''Aliens'', JStr ''Dune''] = map (\<lambda>i. df ! i) (drop 1 row)
           \<and> length [JStr ''Aliens'', JStr ''Dune''] = nat 2)"
proof -
  have 1: "(1::int) \<le> 2" by simp
  show ?thesis
    by (intro conjI 1 ml_world_avatar
        similarity_lookup [OF 1 ml_world_avatar four_neighbors_contract])
qed

section \<open>Length of the answer\<close>









lemma fallback_world_titles:
  "fst (resolve_candidates fallback_world ''Avatar'' 5)
     = Inr (Rec_Ok [JStr ''Aliens'', JStr ''Dune'', JStr ''Titanic''] ''TMDB fallback'')"
  by (simp add: world_simps resolver_simps resolve_candidates_def lower_strip_avatar)



section \<open>Order of the answer\<close>

lemma TMDB_API_KEY_latency: "TMDB_API_KEY (w\<lparr>latency := lat\<rparr>) = TMDB_API_KEY w"
  by (simp add: TMDB_API_KEY_def)

lemma recommend_ml_latency: "recommend_ml (w\<lparr>latency := lat\<rparr>) q k = recommend_ml w q k"
  by (simp add: recommend_ml_def)

lemma tmdb_search_latency: "tmdb_search (w\<lparr>latency := lat\<rparr>) n = tmdb_search w n"
  by (simp add: tmdb_search_def TMDB_API_KEY_latency)

lemma tmdb_similar_latency: "tmdb_similar (w\<lparr>latency := lat\<rparr>) i k = tmdb_similar w i k"
  by (simp add: tmdb_similar_def TMDB_API_KEY_latency)

lemma recommend_tmdb_latency: "recommend_tmdb (w\<lparr>latency := lat\<rparr>) q k = recommend_tmdb w q k"
  by (simp add: recommend_tmdb_def tmdb_search_latency tmdb_similar_latency TMDB_API_KEY_latency
      Let_def cong: step.case_cong if_cong)

lemma resolve_candidates_latency:
  "resolve_candidates (w\<lparr>latency := lat\<rparr>) q k = resolve_candidates w q k"
  by (simp add: resolve_candidates_def recommend_ml_latency recommend_tmdb_latency
      cong: sum.case_cong if_cong)

lemma details_search_latency: "details_search (w\<lparr>latency := lat\<rparr>) t = details_search w t"
  by (simp add: details_search_def TMDB_API_KEY_latency)

lemma details_fetch_latency: "details_fetch (w\<lparr>latency := lat\<rparr>) i = details_fetch w i"
  by (simp add: details_fetch_def TMDB_API_KEY_latency)

lemma credits_fetch_latency: "credits_fetch (w\<lparr>latency := lat\<rparr>) i = credits_fetch w i"
  by (simp add: credits_fetch_def TMDB_API_KEY_latency)

lemma get_movie_full_details_latency:
  "get_movie_full_details (w\<lparr>latency := lat\<rparr>) t = get_movie_full_details w t"
  by (simp add: get_movie_full_details_def details_search_latency details_fetch_latency
      credits_fetch_latency TMDB_API_KEY_latency Let_def cong: step.case_cong prod.case_cong)

lemma ott_search_latency: "ott_search (w\<lparr>latency := lat\<rparr>) t = ott_search w t"
  by (simp add: ott_search_def TMDB_API_KEY_latency)

lemma ott_fetch_latency: "ott_fetch (w\<lparr>latency := lat\<rparr>) i = ott_fetch w i"
  by (simp add: ott_fetch_def TMDB_API_KEY_latency)

lemma get_ott_links_latency: "get_ott_links (w\<lparr>latency := lat\<rparr>) t = get_ott_links w t"
  by (simp add: get_ott_links_def ott_search_latency ott_fetch_latency TMDB_API_KEY_latency
      Let_def cong: step.case_cong)

lemma get_full_recommendations_latency:
  "get_full_recommendations (w\<lparr>latency := lat\<rparr>) q k = get_full_recommendations w q k"
proof (cases "fst (resolve_candidates w q k)")
  case (Inl e)
  then show ?thesis
    by (cases "resolve_candidates w q k")
      (simp add: get_full_recommendations_def resolve_candidates_latency)
next
  case (Inr rec_result)
  then have "fst (resolve_candidates (w\<lparr>latency := lat\<rparr>) q k) = Inr rec_result"
    by (simp add: resolve_candidates_latency)
  from full_recommendations_value [OF this] full_recommendations_log [OF this]
    full_recommendations_value [OF Inr] full_recommendations_log [OF Inr]
  show ?thesis
    by (simp add: prod_eq_iff resolve_candidates_latency get_movie_full_details_latency
        get_ott_links_latency snd_enrich)
qed

lemma ml_world_titles:
  "fst (resolve_candidates ml_world ''Avatar'' 2)
     = Inr (Rec_Ok [JStr ''Aliens'', JStr ''Dune''] ''ML model'')"
  by (simp add: resolve_candidates_def ml_world_avatar)

lemma ml_world_completion: "completion_order (latency ml_world) 2 = [1, 0]"
  by (simp add: completion_order_def ml_world_def numeral_2_eq_2)

text \<open>
  Claim C5. The answer keeps the rank order of the candidates: whenever the index lookup
  returns, the aggregator returns an answer whose \<open>i\<close>-th entry is built from the two
  enrichments of the \<open>i\<close>-th candidate title; and neither the answer nor the log changes when
  the latencies of the concurrent tasks, and with them the order in which the tasks complete,
  are replaced by any others.
\<close>

theorem rank_order_preserved:
  "get_full_recommendations (w\<lparr>latency := lat\<rparr>) q k = get_full_recommendations w q k
   \<and> (\<forall>r. recommend_ml w q k = Inr r \<longrightarrow>
        (\<exists>rec_result recs.
           fst (resolve_candidates w q k) = Inr rec_result
           \<and> fst (get_full_recommendations w q k) = Inr recs
           \<and> length recs = length (recommended_movies rec_result)
           \<and> (\<forall>i < length (recommended_movies rec_result).
                recs ! i =
                  movie_info_of
                    (fst (get_movie_full_details w (recommended_movies rec_result ! i)))
                    (fst (get_ott_links w (recommended_movies rec_result ! i))))))"
proof -
  have "\<exists>rec_result recs.
           fst (resolve_candidates w q k) = Inr rec_result
           \<and> fst (get_full_recommendations w q k) = Inr recs
           \<and> length recs = length (recommended_movies rec_result)
           \<and> (\<forall>i < length (recommended_movies rec_result).
                recs ! i =
                  movie_info_of
                    (fst (get_movie_full_details w (recommended_movies rec_result ! i)))
                    (fst (get_ott_links w (recommended_movies rec_result ! i))))"
    if "recommend_ml w q k = Inr r" for r
  proof -
    from resolve_candidates_returns(1) [OF that] obtain rec_result where
      res: "fst (resolve_candidates w q k) = Inr rec_result" by blast
    from full_recommendations_value [OF res] res show ?thesis by simp
  qed
  then show ?thesis
    by (simp add: get_full_recommendations_latency)
qed

theorem rank_order_preserved_witness:
  "completion_order (latency ml_world) 2 = [1, 0]
   \<and> recommend_ml ml_world ''Avatar'' 2 = Inr (Rec_Ok [JStr ''Aliens'', JStr ''Dune''] ''ML model'')
   \<and> (\<exists>recs. fst (get_full_recommendations ml_world ''Avatar'' 2) = Inr recs
        \<and> length recs = 2
        \<and> recs ! 0 =
            movie_info_of (fst (get_movie_full_details ml_world (JStr ''Aliens'')))
              (fst (get_ott_links ml_world (JStr ''Aliens'')))
        \<and> recs ! 1 =
            movie_info_of (fst (get_movie_full_details ml_world (JStr ''Dune'')))
              (fst (get_ott_links ml_world (JStr ''Dune''))))
   \<and> get_full_recommendations (ml_world\<lparr>latency := (\<lambda>i. i)\<rparr>) ''Avatar'' 2
       = get_full_recommendations ml_world ''Avatar'' 2"
  using rank_order_preserved [where w = ml_world and lat = "\<lambda>i. i" and q = "''Avatar''" and k = 2]
    ml_world_completion
  by (auto simp: ml_world_titles ml_world_avatar All_less_Suc numeral_2_eq_2)

section \<open>A search that fails\<close>

lemma details_except_is_error: "\<exists>m. details_except e = Details_Error m"
  by (cases e) simp_all

lemma ott_except_is_error: "\<exists>m. ott_except e = Ott_Error m"
  by (cases e) simp_all

lemma search_fails_first_result:
  assumes "search_call_fails resp" and "first_result resp a b = Next x"
  shows "\<exists>e. py_item x ''id'' = Inl e"
  using assms
  by (auto simp: search_call_fails_def first_result_def
      split: response.splits sum.splits if_splits)

lemma first_result_Return: "first_result resp a b = Return r \<Longrightarrow> r = a \<or> r = b"
  by (auto simp: first_result_def split: response.splits sum.splits if_splits)

lemma details_search_fails:
  assumes "search_call_fails (http_get w (Search_Movie (TMDB_API_KEY w) t))"
  shows "(\<exists>e. details_search w t = Raise e) \<or> (\<exists>m. details_search w t = Return (Details_Error m))"
proof (cases "first_result (http_get w (Search_Movie (TMDB_API_KEY w) t))
             (Details_Error (Msg ''Failed to fetch movie info from TMDB.''))
             (Details_Error (Msg ''Movie not found.''))")
  case (Raise e)
  then show ?thesis by (simp add: details_search_def)
next
  case (Return r)
  then show ?thesis
    using first_result_Return [OF Return] by (auto simp: details_search_def)
next
  case (Next x)
  from search_fails_first_result [OF assms Next] obtain e where "py_item x ''id'' = Inl e" ..
  with Next show ?thesis by (simp add: details_search_def)
qed

lemma ott_search_fails:
  assumes "search_call_fails (http_get w (Search_Movie (TMDB_API_KEY w) t))"
  shows "(\<exists>e. ott_search w t = Raise e) \<or> (\<exists>m. ott_search w t = Return (Ott_Error m))"
proof (cases "first_result (http_get w (Search_Movie (TMDB_API_KEY w) t))
             (Ott_Error (Msg ''Failed to fetch movie info from TMDB.''))
             (Ott_Error (Msg ''No streaming info available.''))")
  case (Raise e)
  then show ?thesis by (simp add: ott_search_def)
next
  case (Return r)
  then show ?thesis
    using first_result_Return [OF Return] by (auto simp: ott_search_def)
next
  case (Next x)
  from search_fails_first_result [OF assms Next] obtain e where "py_item x ''id'' = Inl e" ..
  with Next show ?thesis by (simp add: ott_search_def)
qed

text \<open>
  Claim C6. When the search call for a title fails, \<open>get_movie_full_details\<close> returns an
  error entry and has issued the search request only; \<open>get_ott_links\<close> does the same on its
  own search, so the two search requests are all that goes out for that title.
\<close>

theorem search_failure_stops_enrichment:
  assumes "search_call_fails (http_get w (Search_Movie (TMDB_API_KEY w) t))"
  shows "(\<exists>m. get_movie_full_details w t = (Details_Error m, [Search_Movie (TMDB_API_KEY w) t]))
    \<and> (\<exists>m. get_ott_links w t = (Ott_Error m, [Search_Movie (TMDB_API_KEY w) t]))
    \<and> snd (enrich w t) =
        [Call_get_movie_full_details t, Get (Search_Movie (TMDB_API_KEY w) t),
         Call_get_ott_links t, Get (Search_Movie (TMDB_API_KEY w) t)]"
proof -
  have d: "\<exists>m. get_movie_full_details w t = (Details_Error m, [Search_Movie (TMDB_API_KEY w) t])"
    using details_search_fails [OF assms] details_except_is_error
    by (auto simp: get_movie_full_details_def)
  have o: "\<exists>m. get_ott_links w t = (Ott_Error m, [Search_Movie (TMDB_API_KEY w) t])"
    using ott_search_fails [OF assms] ott_except_is_error
    by (auto simp: get_ott_links_def)
  from d o show ?thesis
    by (auto simp: snd_enrich)
qed

theorem search_failure_stops_enrichment_witness:
  "search_call_fails
     (http_get notamovie_world (Search_Movie (TMDB_API_KEY notamovie_world) (JStr ''Zzzz'')))
   \<and> get_movie_full_details notamovie_world (JStr ''Zzzz'') =
       (Details_Error (Msg ''Movie not found.''),
        [Search_Movie (TMDB_API_KEY notamovie_world) (JStr ''Zzzz'')])
   \<and> snd (get_ott_links notamovie_world (JStr ''Zzzz'')) =
        [Search_Movie (TMDB_API_KEY notamovie_world) (JStr ''Zzzz'')]"
proof -
  have 1: "search_call_fails
     (http_get notamovie_world (Search_Movie (TMDB_API_KEY notamovie_world) (JStr ''Zzzz'')))"
    by (simp add: world_simps search_call_fails_def)
  have 2: "fst (get_movie_full_details notamovie_world (JStr ''Zzzz''))
      = Details_Error (Msg ''Movie not found.'')"
    by (simp add: world_simps get_movie_full_details_def details_search_def first_result_def)
  show ?thesis
    using search_failure_stops_enrichment [OF 1] 1 2 by auto
qed

section \<open>Enrichment of one title\<close>

lemma comprehension_length: "comprehension f xs = Inr ys \<Longrightarrow> length ys = length xs"
  by (induction xs arbitrary: ys) (auto split: sum.splits)

lemma comprehension_as_str: "comprehension as_str xs = Inr ss \<Longrightarrow> xs = map JStr ss"
proof (induction xs arbitrary: ss)
  case Nil
  then show ?case by simp
next
  case (Cons x xs)
  then show ?case
    by (cases x) (auto split: sum.splits)
qed

lemma py_join_Inr: "py_join xs = Inr s \<Longrightarrow> \<exists>ss. xs = map JStr ss \<and> s = join_strings ss"
  by (auto simp: py_join_def split: sum.splits dest: comprehension_as_str)

lemma director_names_filter:
  "director_names ms = Inr ns \<Longrightarrow>
     comprehension (\<lambda>member. py_item member ''name'') (filter is_director ms) = Inr ns"
  by (induction ms arbitrary: ns) (auto simp: is_director_def split: sum.splits if_splits)

lemma details_fetch_Return: "details_fetch w i = Return r \<Longrightarrow> \<exists>m. r = Details_Error m"
  by (auto simp: details_fetch_def split: response.splits sum.splits if_splits)

lemma details_fetch_Next:
  "details_fetch w i = Next md \<Longrightarrow> http_get w (Movie (TMDB_API_KEY w) i) = Resp 200 (Inr md)"
  by (auto simp: details_fetch_def split: response.splits sum.splits if_splits)

lemma credits_fetch_not_Return: "credits_fetch w i \<noteq> Return r"
  by (auto simp: credits_fetch_def split: response.splits sum.splits if_splits)

lemma details_dict_not_Return: "details_dict md cl crl p \<noteq> Return r"
  by (auto simp: details_dict_def split: sum.splits)

lemma details_dict_Next:
  assumes "details_dict md cl crl p = Next r"
  shows "\<exists>d. r = Details_Ok d
     \<and> py_get md ''title'' JNull = Inr (title d)
     \<and> py_get md ''overview'' JNull = Inr (overview d)
     \<and> py_get md ''vote_average'' JNull = Inr (rating d)
     \<and> py_get md ''release_date'' JNull = Inr (release_date d)
     \<and> py_join cl = Inr (cast d) \<and> py_join crl = Inr (crew d) \<and> poster_url d = p"
  using assms by (auto simp: details_dict_def split: sum.splits)

lemma details_search_Return: "details_search w t = Return r \<Longrightarrow> \<exists>m. r = Details_Error m"
  by (auto simp: details_search_def split: step.splits sum.splits
      dest: first_result_Return)

lemma get_movie_full_details_okD:
  assumes "fst (get_movie_full_details w t) = Details_Ok d"
  shows "\<exists>movie_id movie_details cast_list crew_list.
      details_search w t = Next (movie_id, poster_url d)
      \<and> details_fetch w movie_id = Next movie_details
      \<and> credits_fetch w movie_id = Next (cast_list, crew_list)
      \<and> details_dict movie_details cast_list crew_list (poster_url d) = Next (Details_Ok d)"
proof (cases "details_search w t")
  case (Raise e)
  with assms show ?thesis
    using details_except_is_error [of e] by (auto simp: get_movie_full_details_def)
next
  case (Return r)
  with assms show ?thesis
    by (auto simp: get_movie_full_details_def dest: details_search_Return)
next
  case (Next p)
  obtain movie_id poster where p: "p = (movie_id, poster)" by (cases p)
  show ?thesis
  proof (cases "details_fetch w movie_id")
    case (Raise e)
    with assms Next p show ?thesis
      using details_except_is_error [of e] by (auto simp: get_movie_full_details_def)
  next
    case (Return r)
    with assms Next p show ?thesis
      by (auto simp: get_movie_full_details_def dest: details_fetch_Return)
  next
    case fetched: (Next movie_details)
    show ?thesis
    proof (cases "credits_fetch w movie_id")
      case (Raise e)
      with assms Next p fetched show ?thesis
        using details_except_is_error [of e] by (auto simp: get_movie_full_details_def)
    next
      case (Return r)
      then show ?thesis by (simp add: credits_fetch_not_Return)
    next
      case credited: (Next c)
      obtain cast_list crew_list where c: "c = (cast_list, crew_list)" by (cases c)
      show ?thesis
      proof (cases "details_dict movie_details cast_list crew_list poster")
        case (Raise e)
        with assms Next p fetched credited c show ?thesis
          using details_except_is_error [of e] by (auto simp: get_movie_full_details_def)
      next
        case (Return r)
        then show ?thesis by (simp add: details_dict_not_Return)
      next
        case built: (Next r)
        with assms Next p fetched credited c have r: "r = Details_Ok d"
          by (simp add: get_movie_full_details_def)
        from details_dict_Next [OF built] r have "poster_url d = poster" by auto
        with Next p fetched credited c built r show ?thesis by simp
      qed
    qed
  qed
qed

lemma credits_fetch_available:
  assumes "credits_fetch w i = Next (cast_list, crew_list)"
    and "http_get w (Credits (TMDB_API_KEY w) i) = Resp 200 (Inr credits)"
    and "py_get credits ''cast'' (JList []) = Inr (JList cast_members)"
    and "py_get credits ''crew'' (JList []) = Inr (JList crew_members)"
  shows "comprehension (\<lambda>member. py_item member ''name'') (take 3 cast_members) = Inr cast_list"
    and "director_names crew_members = Inr crew_list"
  using assms
  by (auto simp: credits_fetch_def cast_names_def crew_names_def slice_to_def
      split: sum.splits)

lemma fallback_world_details:
  "fst (get_movie_full_details fallback_world (JStr ''Dune'')) = Details_Ok dune_detail"
  by (simp add: world_simps get_movie_full_details_def details_search_def first_result_def
      details_fetch_def credits_fetch_def cast_names_def crew_names_def details_dict_def
      py_join_def slice_to_def TMDB_API_KEY_def sample_cast_def sample_crew_def dune_detail_def)

lemma fallback_world_search:
  "details_search fallback_world (JStr ''Dune'') = Next (JNum 438631, poster_url dune_detail)"
  by (simp add: world_simps details_search_def first_result_def TMDB_API_KEY_def
      dune_detail_def)

lemma fallback_world_credits:
  "http_get fallback_world (Credits (TMDB_API_KEY fallback_world) (JNum 438631)) =
     Resp 200 (Inr (JObj [(''cast'', JList sample_cast), (''crew'', JList sample_crew)]))"
  by (simp add: world_simps)

text \<open>
  Claim C9. When the credits response of a title is available and the title is enriched, the
  \<open>cast\<close> field joins exactly the names of the first three credited cast members (of all of
  them when there are fewer), and the \<open>crew\<close> field joins exactly the names of the crew
  members whose role tag equals \<^verbatim>\<open>"Director"\<close>.
\<close>

theorem cast_and_crew:
  assumes "fst (get_movie_full_details w t) = Details_Ok d"
    and "details_search w t = Next (movie_id, poster)"
    and "http_get w (Credits (TMDB_API_KEY w) movie_id) = Resp 200 (Inr credits)"
    and "py_get credits ''cast'' (JList []) = Inr (JList cast_members)"
    and "py_get credits ''crew'' (JList []) = Inr (JList crew_members)"
  shows "\<exists>cast_strs crew_strs.
      comprehension (\<lambda>member. py_item member ''name'') (take 3 cast_members)
        = Inr (map JStr cast_strs)
      \<and> length cast_strs = min 3 (length cast_members)
      \<and> cast d = join_strings cast_strs
      \<and> comprehension (\<lambda>member. py_item member ''name'') (filter is_director crew_members)
        = Inr (map JStr crew_strs)
      \<and> crew d = join_strings crew_strs"
proof -
  from get_movie_full_details_okD [OF assms(1)] assms(2)
  obtain movie_details cast_list crew_list where
    c: "credits_fetch w movie_id = Next (cast_list, crew_list)" and
    b: "details_dict movie_details cast_list crew_list (poster_url d) = Next (Details_Ok d)"
    by auto
  from details_dict_Next [OF b]
  have j: "py_join cast_list = Inr (cast d)" "py_join crew_list = Inr (crew d)"
    by auto
  from py_join_Inr [OF j(1)] obtain cast_strs where
    cs: "cast_list = map JStr cast_strs" "cast d = join_strings cast_strs" by blast
  from py_join_Inr [OF j(2)] obtain crew_strs where
    rs: "crew_list = map JStr crew_strs" "crew d = join_strings crew_strs" by blast
  note av = credits_fetch_available [OF c assms(3-5)]
  from comprehension_length [OF av(1)] cs(1)
  have "length cast_strs = min 3 (length cast_members)"
    by (simp add: min.commute)
  with av(1) director_names_filter [OF av(2)] cs rs show ?thesis
    by blast
qed

theorem cast_and_crew_witness:
  "fst (get_movie_full_details fallback_world (JStr ''Dune'')) = Details_Ok dune_detail
   \<and> cast dune_detail = ''Sam, Zoe, Sigourney''
   \<and> crew dune_detail = ''James''
   \<and> (\<exists>cast_strs crew_strs.
      comprehension (\<lambda>member. py_item member ''name'') (take 3 sample_cast)
        = Inr (map JStr cast_strs)
      \<and> length cast_strs = min 3 (length sample_cast)
      \<and> cast dune_detail = join_strings cast_strs
      \<and> comprehension (\<lambda>member. py_item member ''name'') (filter is_director sample_crew)
        = Inr (map JStr crew_strs)
      \<and> crew dune_detail = join_strings crew_strs)"
proof -
  have 4: "py_get (JObj [(''cast'', JList sample_cast), (''crew'', JList sample_crew)])
       ''cast'' (JList []) = Inr (JList sample_cast)"
    by simp
  have 5: "py_get (JObj [(''cast'', JList sample_cast), (''crew'', JList sample_crew)])
       ''crew'' (JList []) = Inr (JList sample_crew)"
    by simp
  have 6: "cast dune_detail = ''Sam, Zoe, Sigourney''" "crew dune_detail = ''James''"
    by (simp_all add: dune_detail_def)
  show ?thesis
    by (intro conjI fallback_world_details 6
        cast_and_crew [OF fallback_world_details fallback_world_search
          fallback_world_credits 4 5])
qed

lemma fallback_world_ott:
  "fst (get_ott_links fallback_world (JStr ''Dune''))
     = Ott_Error (Msg ''Failed to fetch streaming info from TMDB.'')"
  by (simp add: world_simps get_ott_links_def ott_search_def first_result_def ott_fetch_def
      TMDB_API_KEY_def)

text \<open>
  Claim C4. When, for a candidate title, \<open>get_ott_links\<close> fails and \<open>get_movie_full_details\<close>
  succeeds, the entry of that title is in the answer (no entry is dropped), every detail field
  of the entry is the field of the details dictionary, the four descriptive fields being
  those of the catalog's details document, and \<open>ott_availability\<close> is the sentinel
  \<^verbatim>\<open>"Not Available"\<close>.
\<close>

theorem provider_failure_isolated:
  assumes "fst (resolve_candidates w q k) = Inr rec_result"
    and "i < length (recommended_movies rec_result)"
    and "t = recommended_movies rec_result ! i"
    and "fst (get_movie_full_details w t) = Details_Ok d"
    and "fst (get_ott_links w t) = Ott_Error m"
  shows "\<exists>recs.
      fst (get_full_recommendations w q k) = Inr recs
      \<and> length recs = length (recommended_movies rec_result)
      \<and> recs ! i =
          \<lparr>title = title d, overview = overview d, rating = rating d,
           release_date = release_date d, cast = cast d, crew = crew d,
           poster_url = poster_url d, ott_availability = Not_Available\<rparr>
      \<and> (\<exists>movie_id movie_details.
            http_get w (Movie (TMDB_API_KEY w) movie_id) = Resp 200 (Inr movie_details)
            \<and> py_get movie_details ''title'' JNull = Inr (title d)
            \<and> py_get movie_details ''overview'' JNull = Inr (overview d)
            \<and> py_get movie_details ''vote_average'' JNull = Inr (rating d)
            \<and> py_get movie_details ''release_date'' JNull = Inr (release_date d))"
proof -
  from get_movie_full_details_okD [OF assms(4)]
  obtain movie_id movie_details cast_list crew_list where
    f: "details_fetch w movie_id = Next movie_details" and
    b: "details_dict movie_details cast_list crew_list (poster_url d) = Next (Details_Ok d)"
    by blast
  from details_dict_Next [OF b] details_fetch_Next [OF f]
  have "\<exists>movie_id movie_details.
          http_get w (Movie (TMDB_API_KEY w) movie_id) = Resp 200 (Inr movie_details)
          \<and> py_get movie_details ''title'' JNull = Inr (title d)
          \<and> py_get movie_details ''overview'' JNull = Inr (overview d)
          \<and> py_get movie_details ''vote_average'' JNull = Inr (rating d)
          \<and> py_get movie_details ''release_date'' JNull = Inr (release_date d)"
    by auto
  with assms(2-5) show ?thesis
    by (simp add: full_recommendations_value [OF assms(1)])
qed

theorem provider_failure_isolated_witness:
  "http_get fallback_world (Watch_Providers (TMDB_API_KEY fallback_world) (JNum 438631))
     = Resp 503 (Inr JNull)
   \<and> fst (get_ott_links fallback_world (JStr ''Dune''))
     = Ott_Error (Msg ''Failed to fetch streaming info from TMDB.'')
   \<and> fst (get_movie_full_details fallback_world (JStr ''Dune'')) = Details_Ok dune_detail
   \<and> (\<exists>recs. fst (get_full_recommendations fallback_world ''Avatar'' 5) = Inr recs
        \<and> length recs = 3
        \<and> recs ! 1 =
            \<lparr>title = JStr ''Dune'', overview = JStr ''A film'', rating = JNum 7,
             release_date = JStr ''2009-12-18'', cast = ''Sam, Zoe, Sigourney'', crew = ''James'',
             poster_url = Some (Fmt ''https://image.tmdb.org/t/p/w500'' (JStr ''/poster.jpg'')),
             ott_availability = Not_Available\<rparr>)"
proof -
  have 1: "1 < length (recommended_movies
      (Rec_Ok [JStr ''Aliens'', JStr ''Dune'', JStr ''Titanic''] ''TMDB fallback''))"
    by simp
  have 2: "JStr ''Dune'' = recommended_movies
      (Rec_Ok [JStr ''Aliens'', JStr ''Dune'', JStr ''Titanic''] ''TMDB fallback'') ! 1"
    by simp
  have 0: "http_get fallback_world (Watch_Providers (TMDB_API_KEY fallback_world) (JNum 438631))
     = Resp 503 (Inr JNull)"
    by (simp add: world_simps)
  show ?thesis
    using provider_failure_isolated
      [OF fallback_world_titles 1 2 fallback_world_details fallback_world_ott]
      0 fallback_world_ott fallback_world_details
    by (auto simp: dune_detail_def)
qed

end
